theory Spec2Isabelle
  imports Complex_Main "HOL-Library.Sublist"
begin

section \<open>Values and data model\<close>

text \<open>
  A field of a parsed JSON request body, as \<open>express.json()\<close> hands it to a route.
  \<open>JUndefined\<close> is a field that is absent from the body, \<open>JObj\<close> any array or object.
  A JavaScript \<open>number\<close> is modelled by a rational, and a fraction such as \<open>1.5\<close> is
  a value of the type. Comparisons and \<open>===\<close> are those of the numbers. The sums and
  products of the routes are exact here, where the handlers round to a double: the two
  agree as long as the operands and the result are integers of magnitude below
  \<open>2^53\<close>, and not beyond (\<open>7.000000000000001 + 1\<close> is stored as \<open>8\<close>). Every
  statement below that speaks of a sum carries that range as a hypothesis. \<open>NaN\<close>
  cannot be written in JSON, and a literal beyond the range of a double is left out.
\<close>

datatype jsval = JUndefined | JNull | JBool bool | JNum rat | JStr string | JObj

text \<open>JavaScript truthiness, as \<open>!v\<close> and \<open>v || d\<close> read it.\<close>

fun truthy :: "jsval \<Rightarrow> bool" where
  "truthy JUndefined = False"
| "truthy JNull = False"
| "truthy (JBool b) = b"
| "truthy (JNum n) = (n \<noteq> 0)"
| "truthy (JStr s) = (s \<noteq> [])"
| "truthy JObj = True"

text \<open>\<open>v == null\<close>: true of \<open>null\<close> and \<open>undefined\<close> only.\<close>

fun nullish :: "jsval \<Rightarrow> bool" where
  "nullish JUndefined = True"
| "nullish JNull = True"
| "nullish v = False"

text \<open>\<open>typeof v === "number"\<close>, with the number when it holds.\<close>

fun num_of :: "jsval \<Rightarrow> rat option" where
  "num_of (JNum n) = Some n"
| "num_of v = None"

record CartItem =
  productId :: rat
  qty :: rat

record Product =
  id' :: rat
  name :: string
  price :: rat
  image :: string
  description :: string
  stock :: rat

text \<open>
  The session object of \<open>cookie-session\<close>: both fields are absent until a handler
  assigns them.
\<close>

record session =
  cart :: "CartItem list option"
  userId :: "string option"

text \<open>\<open>sess.cart || []\<close>: an array, even an empty one, is truthy.\<close>

definition cart_or_empty :: "session \<Rightarrow> CartItem list" where
  "cart_or_empty sess = (case cart sess of None \<Rightarrow> [] | Some c \<Rightarrow> c)"

text \<open>\<open>sess.userId || d\<close>: an absent id and the empty string are falsy.\<close>

definition id_or :: "string option \<Rightarrow> string \<Rightarrow> string" where
  "id_or u d = (case u of None \<Rightarrow> d | Some s \<Rightarrow> if s = [] then d else s)"

section \<open>The persisted store\<close>

text \<open>
  The file \<open>data.json\<close>. \<open>Missing\<close>: the read fails, and \<open>saveCartToFile\<close> then
  starts from \<open>"{}"\<close>. \<open>Corrupt\<close>: the text does not parse to a JSON object, so
  \<open>JSON.parse\<close> or the property access throws inside the \<open>try\<close>. \<open>Carts m\<close>: the text
  parses to the object \<open>m\<close>. Its keys are user ids as the server mints them
  (\<open>user_...\<close>, or \<open>anonymous\<close>), so a lookup never meets a property inherited from
  \<open>Object.prototype\<close> and the object is a finite map.
  \<open>writable\<close> says whether \<open>fs.writeFile\<close> succeeds.
\<close>

datatype file_state = Missing | Corrupt | Carts "string \<rightharpoonup> CartItem list"

record disk =
  content :: file_state
  writable :: bool

text \<open>
  \<open>saveCartToFile\<close>: read (or \<open>"{}"\<close>), parse, replace one key, write the whole object
  back. Every failure is caught and logged; the file is then as it was.
\<close>

definition saveCartToFile :: "string \<Rightarrow> CartItem list \<Rightarrow> disk \<Rightarrow> disk" where
  "saveCartToFile uid c d =
     (case content d of
        Corrupt \<Rightarrow> d
      | Missing \<Rightarrow> if writable d then d\<lparr>content := Carts [uid \<mapsto> c]\<rparr> else d
      | Carts allCarts \<Rightarrow> if writable d then d\<lparr>content := Carts (allCarts(uid \<mapsto> c))\<rparr> else d)"

text \<open>\<open>loadCartFromFile\<close>: \<open>allCarts[userId] || []\<close>, and \<open>[]\<close> on any failure.\<close>

definition loadCartFromFile :: "string \<Rightarrow> disk \<Rightarrow> CartItem list" where
  "loadCartFromFile uid d =
     (case content d of
        Carts allCarts \<Rightarrow> (case allCarts uid of None \<Rightarrow> [] | Some c \<Rightarrow> c)
      | _ \<Rightarrow> [])"

section \<open>Cart routes\<close>

text \<open>
  The body of a 400 response, one constructor for each message of the routes:
  \<open>Required\<close> ("... son requeridos", "productId es requerido"),
  \<open>NotNumber\<close> ("... deben ser numeros", "productId debe ser un numero"),
  \<open>InvalidQuantity\<close> ("La cantidad debe ser mayor a 0"),
  \<open>UnknownProduct\<close> ("El ID del producto no existe"),
  \<open>InsufficientStock v\<close> ("Stock insuficiente. Disponible: v", where \<open>v\<close> is
  the interpolated \<open>stockMap[productId]\<close>).
\<close>

datatype reason =
  Required | NotNumber | InvalidQuantity | UnknownProduct | InsufficientStock "rat option"

datatype response = Rejected reason | Ok "CartItem list"

text \<open>The first rejection of the specification's taxonomy covers two messages.\<close>

definition MissingOrWrongType :: "reason \<Rightarrow> bool" where
  "MissingOrWrongType r = (r = Required \<or> r = NotNumber)"

text \<open>The stock table written inside the \<open>/add\<close> handler.\<close>

definition stockMap :: "rat \<Rightarrow> rat option" where
  "stockMap = map_of
     [(1, 12), (2, 24), (3, 8), (4, 16), (5, 10), (6, 7), (7, 15), (8, 20), (9, 11)]"

text \<open>\<open>n > stockMap[productId]\<close>: a comparison with \<open>undefined\<close> is false.\<close>

definition exceeds :: "rat \<Rightarrow> rat option \<Rightarrow> bool" where
  "exceeds n limit = (case limit of None \<Rightarrow> False | Some s \<Rightarrow> s < n)"

text \<open>\<open>Array.prototype.findIndex\<close>; \<open>None\<close> stands for \<open>-1\<close>.\<close>

fun findIndex :: "('a \<Rightarrow> bool) \<Rightarrow> 'a list \<Rightarrow> nat option" where
  "findIndex P [] = None"
| "findIndex P (x # xs) =
     (if P x then Some 0 else map_option Suc (findIndex P xs))"

text \<open>
  \<open>existing ? existing.qty : 0\<close> with \<open>existing = cart.find(i => i.productId === p)\<close>.
\<close>

definition currentQty :: "CartItem list \<Rightarrow> rat \<Rightarrow> rat" where
  "currentQty c p =
     (case find (\<lambda>i. productId i = p) c of None \<Rightarrow> 0 | Some existing \<Rightarrow> qty existing)"

text \<open>"Agregar o actualizar": increment the item at \<open>idx\<close>, or push a new one.\<close>

definition add_or_update :: "CartItem list \<Rightarrow> rat \<Rightarrow> rat \<Rightarrow> CartItem list" where
  "add_or_update c p q =
     (case findIndex (\<lambda>i. productId i = p) c of
        Some idx \<Rightarrow> c[idx := (c ! idx)\<lparr>qty := qty (c ! idx) + q\<rparr>]
      | None \<Rightarrow> c @ [\<lparr>productId = p, qty = q\<rparr>])"

text \<open>
  \<open>POST /api/cart/add\<close>. \<open>ts\<close> is the text of \<open>Date.now()\<close>; \<open>pv\<close> and \<open>qv\<close> are the
  fields \<open>productId\<close> and \<open>qty\<close> of the body. The result is the response, the session
  and the file after the request.
\<close>

definition add_route ::
  "string \<Rightarrow> jsval \<Rightarrow> jsval \<Rightarrow> session \<times> disk \<Rightarrow> response \<times> session \<times> disk" where
  "add_route ts pv qv st =
     (let sess = fst st; d = snd st in
      if \<not> truthy pv \<or> nullish qv then (Rejected Required, sess, d)
      else case (num_of pv, num_of qv) of
        (Some p, Some q) \<Rightarrow>
          if q \<le> 0 then (Rejected InvalidQuantity, sess, d)
          else if p < 1 \<or> p > 9 then (Rejected UnknownProduct, sess, d)
          else
            let c = cart_or_empty sess;
                uid = id_or (userId sess) (''user_'' @ ts);
                sess1 = sess\<lparr>cart := Some c, userId := Some uid\<rparr>;
                newQty = currentQty c p + q
            in if exceeds newQty (stockMap p)
               then (Rejected (InsufficientStock (stockMap p)), sess1, d)
               else
                 let c' = add_or_update c p q
                 in (Ok c', sess1\<lparr>cart := Some c'\<rparr>, saveCartToFile uid c' d)
      | _ \<Rightarrow> (Rejected NotNumber, sess, d))"

text \<open>
  \<open>POST /api/cart/remove\<close>: the file is written only when the session has a user id.
\<close>

definition save_if_user :: "session \<Rightarrow> CartItem list \<Rightarrow> disk \<Rightarrow> disk" where
  "save_if_user sess c d =
     (case userId sess of
        None \<Rightarrow> d
      | Some u \<Rightarrow> if u = [] then d else saveCartToFile u c d)"

definition remove_route :: "jsval \<Rightarrow> session \<times> disk \<Rightarrow> response \<times> session \<times> disk" where
  "remove_route pv st =
     (let sess = fst st; d = snd st in
      if \<not> truthy pv then (Rejected Required, sess, d)
      else case num_of pv of
        None \<Rightarrow> (Rejected NotNumber, sess, d)
      | Some p \<Rightarrow>
          let c' = filter (\<lambda>i. productId i \<noteq> p) (cart_or_empty sess)
          in (Ok c', sess\<lparr>cart := Some c'\<rparr>, save_if_user sess c' d))"

text \<open>\<open>POST /api/cart/clear\<close>.\<close>

definition clear_route :: "session \<times> disk \<Rightarrow> response \<times> session \<times> disk" where
  "clear_route st =
     (let sess = fst st; d = snd st in
      (Ok [], sess\<lparr>cart := Some []\<rparr>, save_if_user sess [] d))"

text \<open>
  \<open>GET /api/cart\<close>: a session without a cart takes it from the file, under its user
  id or \<open>"anonymous"\<close>; a session with a cart answers from the session.
\<close>

definition get_route :: "session \<times> disk \<Rightarrow> CartItem list \<times> session \<times> disk" where
  "get_route st =
     (let sess = fst st; d = snd st;
          uid = id_or (userId sess) ''anonymous'';
          sess' = (case cart sess of
                     None \<Rightarrow> sess\<lparr>cart := Some (loadCartFromFile uid d)\<rparr>
                   | Some c \<Rightarrow> sess)
      in (cart_or_empty sess', sess', d))"

text \<open>The price table written inside the \<open>/total\<close> handler.\<close>

definition prices :: "rat \<Rightarrow> rat option" where
  "prices = map_of
     [(1, 199999), (2, 149999), (3, 179999), (4, 159999), (5, 189999),
      (6, 209999), (7, 229999), (8, 139999), (9, 169999)]"

record totals =
  total' :: rat
  itemCount :: rat
  currency :: string

text \<open>\<open>prices[item.productId] || 0\<close>; no price of the table is zero.\<close>

definition price_or_zero :: "rat \<Rightarrow> rat" where
  "price_or_zero p = (case prices p of None \<Rightarrow> 0 | Some v \<Rightarrow> v)"

text \<open>
  \<open>GET /api/cart/total\<close>. The handler first awaits a request to
  \<open>http://localhost:3000/api/products\<close> whose answer it does not use; \<open>fetched\<close> says
  whether that request resolved, and when it did not the handler throws before it
  answers (\<open>None\<close>). The loop and the \<open>reduce\<close> are folds from the left.
\<close>

definition total_route :: "bool \<Rightarrow> session \<Rightarrow> (totals \<times> session) option" where
  "total_route fetched sess =
     (let c = cart_or_empty sess in
      if \<not> fetched then None
      else Some (\<lparr>total' = fold (\<lambda>item t. t + price_or_zero (productId item) * qty item) c 0,
                   itemCount = fold (\<lambda>i acc. acc + qty i) c 0,
                   currency = ''COP''\<rparr>, sess))"

section \<open>Catalog routes\<close>

text \<open>
  A JavaScript string is a list of UTF-16 code units. Every code unit of the catalog
  is below 256, so a \<open>char\<close> stands for one code unit of the Basic Latin and Latin-1
  blocks; \<open>CHR 0xE1\<close>, \<open>CHR 0xF1\<close> and \<open>CHR 0xF3\<close> are the letters a with acute, n with
  tilde and o with acute of the descriptions.
\<close>

definition products :: "Product list" where
  "products =
    [\<lparr>id' = 1, name = ''Runner Azul'', price = 199999, image = ''/img/shoe_1.png'',
      description = ''Zapatilla ligera para correr, malla transpirable.'', stock = 12\<rparr>,
     \<lparr>id' = 2, name = ''Classic Rojo'', price = 149999, image = ''/img/shoe_2.png'',
      description = ''Cl'' @ [CHR 0xE1] @ ''sico urbano para uso diario.'', stock = 24\<rparr>,
     \<lparr>id' = 3, name = ''Eco Verde'', price = 179999, image = ''/img/shoe_3.png'',
      description = ''Materiales reciclados, c'' @ [CHR 0xF3] @ ''modo y resistente.'',
      stock = 8\<rparr>,
     \<lparr>id' = 4, name = ''Urban Naranja'', price = 159999, image = ''/img/shoe_4.png'',
      description = ''Estilo urbano con suela de alta tracci'' @ [CHR 0xF3] @ ''n.'',
      stock = 16\<rparr>,
     \<lparr>id' = 5, name = ''Sport Morado'', price = 189999, image = ''/img/shoe_5.png'',
      description = ''Para entrenamientos de alto rendimiento.'', stock = 10\<rparr>,
     \<lparr>id' = 6, name = ''Trail Gris'', price = 209999, image = ''/img/shoe_6.png'',
      description = ''Ideal para monta'' @ [CHR 0xF1] @ ''a y terrenos irregulares.'',
      stock = 7\<rparr>,
     \<lparr>id' = 7, name = ''Pro Basketball Negro'', price = 229999, image = ''/img/shoe_7.png'',
      description = ''Dise'' @ [CHR 0xF1] @ ''o profesional con soporte de tobillo y amortiguaci''
        @ [CHR 0xF3] @ ''n avanzada.'',
      stock = 15\<rparr>,
     \<lparr>id' = 8, name = ''Casual Blanco'', price = 139999, image = ''/img/shoe_8.png'',
      description = ''Estilo minimalista y elegante, perfecto para cualquier ocasi''
        @ [CHR 0xF3] @ ''n.'',
      stock = 20\<rparr>,
     \<lparr>id' = 9, name = ''Skate Amarillo'', price = 169999, image = ''/img/shoe_9.png'',
      description = ''Suela reforzada y dise'' @ [CHR 0xF1] @ ''o resistente.'', stock = 11\<rparr>]"

text \<open>\<open>products.find(p => p.id === i)\<close>.\<close>

definition lookup :: "rat \<Rightarrow> Product option" where
  "lookup i = find (\<lambda>p. id' p = i) products"

text \<open>
  \<open>String.prototype.toLowerCase\<close> on one code unit: the capital letters \<open>A\<close> to \<open>Z\<close>
  (65 to 90) and the capital letters of Latin-1 (192 to 222, without the
  multiplication sign 215) move up by 32; every other code unit below 256 stays.
\<close>

definition lower_unit :: "char \<Rightarrow> char" where
  "lower_unit c =
     (let n = (of_char c :: nat) in
      if (65 \<le> n \<and> n \<le> 90) \<or> (192 \<le> n \<and> n \<le> 222 \<and> n \<noteq> 215)
      then char_of (n + 32) else c)"

definition toLowerCase :: "string \<Rightarrow> string" where
  "toLowerCase s = map lower_unit s"

text \<open>\<open>s.includes(t)\<close>: \<open>t\<close> starts at some position of \<open>s\<close>.\<close>

fun includes' :: "string \<Rightarrow> string \<Rightarrow> bool" where
  "includes' [] t = (t = [])"
| "includes' (c # cs) t = (prefix t (c # cs) \<or> includes' cs t)"

text \<open>\<open>GET /api/products/search/:query\<close>.\<close>

definition search :: "string \<Rightarrow> Product list" where
  "search q =
     (let query = toLowerCase q in
      filter (\<lambda>p. includes' (toLowerCase (name p)) query
                 \<or> includes' (toLowerCase (description p)) query) products)"

section \<open>Notions of the specification\<close>

text \<open>
  The price of a product id in the catalog; an id that no product has counts as 0.
\<close>

definition catalog_price :: "rat \<Rightarrow> rat" where
  "catalog_price p = (case lookup p of None \<Rightarrow> 0 | Some x \<Rightarrow> price x)"

text \<open>
  A request that changes the cart, and the state after a sequence of them. The
  response is dropped: only the session and the file go on to the next request.
\<close>

datatype request = Add string jsval jsval | Remove jsval | Clear

fun step :: "request \<Rightarrow> session \<times> disk \<Rightarrow> session \<times> disk" where
  "step (Add ts pv qv) st = snd (add_route ts pv qv st)"
| "step (Remove pv) st = snd (remove_route pv st)"
| "step Clear st = snd (clear_route st)"

definition run :: "request list \<Rightarrow> session \<times> disk \<Rightarrow> session \<times> disk" where
  "run rs st = fold step rs st"

text \<open>The entry of a user id in the file, when the file holds a mapping.\<close>

definition entry :: "disk \<Rightarrow> string \<Rightarrow> CartItem list option" where
  "entry d u = (case content d of Carts m \<Rightarrow> m u | _ \<Rightarrow> None)"

text \<open>A response that is the first rejection of the taxonomy.\<close>

definition rule1_rejects :: "response \<Rightarrow> bool" where
  "rule1_rejects r = (case r of Rejected e \<Rightarrow> MissingOrWrongType e | Ok c \<Rightarrow> False)"

text \<open>
  A body field that is a present integer: a number that \<open>Number.isInteger\<close> accepts.
\<close>

definition isInteger :: "rat \<Rightarrow> bool" where
  "isInteger n = (of_int \<lfloor>n\<rfloor> = n)"

definition present_integer :: "jsval \<Rightarrow> bool" where
  "present_integer v = (case num_of v of None \<Rightarrow> False | Some n \<Rightarrow> isInteger n)"

text \<open>
  \<open>Number.isSafeInteger\<close>: an integer of magnitude at most \<open>2^53 - 1\<close>. A cart of the
  data model holds a positive integer quantity in every item; on such quantities, and
  while the sums stay in the safe range, the double arithmetic of the handlers is the
  arithmetic of the model.
\<close>

definition isSafeInteger :: "rat \<Rightarrow> bool" where
  "isSafeInteger n = (isInteger n \<and> \<bar>n\<bar> \<le> 9007199254740991)"

definition safe_quantities :: "CartItem list \<Rightarrow> bool" where
  "safe_quantities c = list_all (\<lambda>i. isSafeInteger (qty i) \<and> 0 < qty i) c"

text \<open>
  Case-insensitive substring, in the specification's words: some contiguous part of
  \<open>s\<close> equals the term \<open>t\<close> when the case of letters is ignored.
\<close>

definition ci_equal :: "string \<Rightarrow> string \<Rightarrow> bool" where
  "ci_equal a b = (toLowerCase a = toLowerCase b)"

definition ci_substring :: "string \<Rightarrow> string \<Rightarrow> bool" where
  "ci_substring t s = list_ex (\<lambda>w. ci_equal w t) (sublists s)"

section \<open>Auxiliary facts\<close>

lemma fold_plus_sum_list:
  "fold (\<lambda>x acc. acc + f x) xs a = a + sum_list (map f xs)" for a :: rat
  by (induction xs arbitrary: a) (simp_all add: add.assoc)

lemma price_or_zero_catalog: "price_or_zero p = catalog_price p"
  by (simp add: price_or_zero_def prices_def catalog_price_def lookup_def products_def)

lemma lookup_SomeD:
  assumes "lookup p = Some x"
  shows "id' x = p" and "1 \<le> p" and "p \<le> 9" and "stockMap p = Some (stock x)"
  using assms
  by (auto simp: lookup_def products_def stockMap_def split: if_splits)

lemma add_or_update_Nil: "add_or_update [] p q = [\<lparr>productId = p, qty = q\<rparr>]"
  by (simp add: add_or_update_def)

lemma add_or_update_Cons:
  "add_or_update (x # xs) p q =
     (if productId x = p then x\<lparr>qty := qty x + q\<rparr> # xs else x # add_or_update xs p q)"
  by (simp add: add_or_update_def split: option.splits)

lemma currentQty_Cons:
  "currentQty (x # xs) p = (if productId x = p then qty x else currentQty xs p)"
  by (simp add: currentQty_def)

lemma add_or_update_absent:
  "p \<notin> productId ` set c \<Longrightarrow> add_or_update c p q = c @ [\<lparr>productId = p, qty = q\<rparr>]"
  by (induction c) (auto simp: add_or_update_Nil add_or_update_Cons)

lemma add_or_update_present:
  "distinct (map productId c) \<Longrightarrow> p \<in> productId ` set c \<Longrightarrow>
   add_or_update c p q = map (\<lambda>i. if productId i = p then i\<lparr>qty := qty i + q\<rparr> else i) c"
proof (induction c)
  case Nil
  then show ?case by simp
next
  case (Cons x xs)
  show ?case
  proof (cases "productId x = p")
    case True
    with Cons.prems have "p \<notin> productId ` set xs" by auto
    then have "map (\<lambda>i. if productId i = p then i\<lparr>qty := qty i + q\<rparr> else i) xs = xs"
      by (induction xs) auto
    with True show ?thesis by (simp add: add_or_update_Cons)
  next
    case False
    with Cons show ?thesis by (simp add: add_or_update_Cons)
  qed
qed

lemma map_productId_add_or_update:
  "map productId (add_or_update c p q) =
     (if p \<in> productId ` set c then map productId c else map productId c @ [p])"
  by (induction c) (auto simp: add_or_update_Nil add_or_update_Cons)

lemma distinct_add_or_update:
  "distinct (map productId c) \<Longrightarrow> distinct (map productId (add_or_update c p q))"
  by (simp add: map_productId_add_or_update)

lemma filter_add_or_update:
  "distinct (map productId c) \<Longrightarrow>
   filter (\<lambda>i. productId i = p) (add_or_update c p q) =
     [\<lparr>productId = p, qty = currentQty c p + q\<rparr>]"
proof (induction c)
  case Nil
  then show ?case by (simp add: add_or_update_Nil currentQty_def)
next
  case (Cons x xs)
  show ?case
  proof (cases "productId x = p")
    case True
    with Cons.prems have "p \<notin> productId ` set xs" by auto
    then have "filter (\<lambda>i. productId i = p) xs = []"
      by (induction xs) auto
    with True show ?thesis
      by (cases x) (simp add: add_or_update_Cons currentQty_Cons)
  next
    case False
    with Cons show ?thesis by (simp add: add_or_update_Cons currentQty_Cons)
  qed
qed

lemma add_route_accepts:
  assumes "lookup p = Some x" and "0 < q" and "currentQty (cart_or_empty sess) p + q \<le> stock x"
  shows "add_route ts (JNum p) (JNum q) (sess, d) =
           (let uid = id_or (userId sess) (''user_'' @ ts);
                c' = add_or_update (cart_or_empty sess) p q
            in (Ok c', \<lparr>cart = Some c', userId = Some uid\<rparr>, saveCartToFile uid c' d))"
  using assms lookup_SomeD[OF assms(1)]
  by (simp add: add_route_def exceeds_def Let_def)

lemma isInteger_Ints: "isInteger n \<longleftrightarrow> n \<in> \<int>"
  by (auto simp: isInteger_def Ints_def of_int_floor_cancel)

lemma safe_quantities_currentQty:
  "safe_quantities c \<Longrightarrow> currentQty c p \<in> \<int> \<and> 0 \<le> currentQty c p"
  by (induction c)
     (auto simp: safe_quantities_def isSafeInteger_def isInteger_Ints currentQty_Cons
                 currentQty_def)

lemma lookup_stock_le: "lookup p = Some x \<Longrightarrow> stock x \<le> 24"
  by (auto simp: lookup_def products_def split: if_splits)

lemma catalog_price_Ints: "catalog_price p \<in> \<int> \<and> 0 \<le> catalog_price p"
  by (simp add: catalog_price_def lookup_def products_def)

lemma sum_list_Ints: "(\<And>x. x \<in> set xs \<Longrightarrow> f x \<in> \<int>) \<Longrightarrow> sum_list (map f xs) \<in> \<int>"
  for f :: "'a \<Rightarrow> rat"
  by (induction xs) auto

lemma sum_list_take_le:
  "(\<And>x. x \<in> set xs \<Longrightarrow> 0 \<le> f x) \<Longrightarrow> sum_list (map f (take j xs)) \<le> sum_list (map f xs)"
  for f :: "'a \<Rightarrow> rat"
proof (induction xs arbitrary: j)
  case Nil
  then show ?case by simp
next
  case (Cons x xs)
  show ?case
  proof (cases j)
    case 0
    have "0 \<le> sum_list (map f (x # xs))"
      by (rule sum_list_nonneg) (use Cons.prems in auto)
    with 0 show ?thesis by simp
  next
    case (Suc i)
    with Cons show ?thesis by simp
  qed
qed

lemma partial_sums_safe:
  fixes f :: "'a \<Rightarrow> rat"
  assumes "\<And>x. x \<in> set xs \<Longrightarrow> f x \<in> \<int> \<and> 0 \<le> f x"
    and "sum_list (map f xs) \<le> 9007199254740991"
  shows "isSafeInteger (sum_list (map f (take j xs)))"
proof -
  have "sum_list (map f (take j xs)) \<in> \<int>"
    by (rule sum_list_Ints) (use assms(1) in_set_takeD in fastforce)
  moreover have "0 \<le> sum_list (map f (take j xs))"
    by (rule sum_list_nonneg) (use assms(1) in_set_takeD in fastforce)
  moreover have "sum_list (map f (take j xs)) \<le> sum_list (map f xs)"
    by (rule sum_list_take_le) (use assms(1) in auto)
  ultimately show ?thesis
    using assms(2) by (simp add: isSafeInteger_def isInteger_Ints)
qed

lemma new_qty_safe:
  fixes n :: int
  assumes "lookup p = Some x" and "safe_quantities c" and "0 < n"
    and "currentQty c p + of_int n \<le> stock x"
  shows "isSafeInteger (currentQty c p + of_int n)"
proof -
  from safe_quantities_currentQty[OF assms(2)]
  have i: "currentQty c p \<in> \<int>" and nn: "0 \<le> currentQty c p" by simp_all
  from i have "currentQty c p + of_int n \<in> \<int>" by simp
  moreover from nn assms(3) have "0 \<le> currentQty c p + of_int n" by simp
  moreover from assms(4) lookup_stock_le[OF assms(1)]
  have "currentQty c p + of_int n \<le> 24" by simp
  ultimately show ?thesis
    by (simp add: isSafeInteger_def isInteger_Ints)
qed



lemma add_or_update_safe:
  fixes n :: int
  assumes "lookup p = Some x" and "0 < n"
    and "currentQty c p + of_int n \<le> stock x" and "safe_quantities c"
  shows "safe_quantities (add_or_update c p (of_int n))"
  using assms(3,4)
proof (induction c)
  case Nil
  with new_qty_safe[OF assms(1) Nil.prems(2) assms(2) Nil.prems(1)] assms(2) show ?case
    by (simp add: add_or_update_Nil safe_quantities_def currentQty_def)
next
  case (Cons y ys)
  show ?case
  proof (cases "productId y = p")
    case True
    from new_qty_safe[OF assms(1) Cons.prems(2) assms(2) Cons.prems(1)] True
    have "isSafeInteger (qty y + of_int n)"
      by (simp add: currentQty_Cons)
    moreover from Cons.prems(2) assms(2) have "0 < qty y + of_int n"
      by (simp add: safe_quantities_def add_pos_pos)
    ultimately show ?thesis
      using True Cons.prems(2) by (simp add: add_or_update_Cons safe_quantities_def)
  next
    case False
    with Cons show ?thesis
      by (simp add: add_or_update_Cons currentQty_Cons safe_quantities_def)
  qed
qed

section \<open>Claims about \<open>add\<close>\<close>

text \<open>
  C1. For every cart of the data model (at most one item for each product id, a
  positive safe integer quantity in each item), every product id of the catalog and
  every positive integer quantity that, added to the quantity already in the cart,
  stays within the product's stock: \<open>add\<close> answers with the updated cart, which is
  also the cart of the session; that cart has exactly one item for the product, with
  the earlier quantity plus the added one; an item that was there keeps its place and
  every other item is as before, and otherwise the new item is the last. The new
  quantities are again positive safe integers, so that no sum was rounded.
\<close>

theorem add_valid_succeeds:
  fixes k n :: int
  assumes "lookup (of_int k) = Some x"
    and "0 < n"
    and "currentQty (cart_or_empty sess) (of_int k) + of_int n \<le> stock x"
    and "distinct (map productId (cart_or_empty sess))"
    and "safe_quantities (cart_or_empty sess)"
  shows "\<exists>c' sess' d'.
           add_route ts (JNum (of_int k)) (JNum (of_int n)) (sess, d) = (Ok c', sess', d')
         \<and> cart sess' = Some c'
         \<and> filter (\<lambda>i. productId i = of_int k) c' =
             [\<lparr>productId = of_int k,
               qty = currentQty (cart_or_empty sess) (of_int k) + of_int n\<rparr>]
         \<and> c' = (if of_int k \<in> productId ` set (cart_or_empty sess)
                 then map (\<lambda>i. if productId i = of_int k then i\<lparr>qty := qty i + of_int n\<rparr> else i)
                        (cart_or_empty sess)
                 else cart_or_empty sess @ [\<lparr>productId = of_int k, qty = of_int n\<rparr>])
         \<and> safe_quantities c'"
proof -
  let ?c = "cart_or_empty sess"
  let ?c' = "add_or_update ?c (of_int k) (of_int n)"
  from assms(2) have "(0::rat) < of_int n" by simp
  with assms(1,3) have
    "add_route ts (JNum (of_int k)) (JNum (of_int n)) (sess, d) =
       (Ok ?c', \<lparr>cart = Some ?c', userId = Some (id_or (userId sess) (''user_'' @ ts))\<rparr>,
        saveCartToFile (id_or (userId sess) (''user_'' @ ts)) ?c' d)"
    by (simp add: add_route_accepts Let_def)
  moreover have "filter (\<lambda>i. productId i = of_int k) ?c' =
      [\<lparr>productId = of_int k, qty = currentQty ?c (of_int k) + of_int n\<rparr>]"
    using assms(4) by (rule filter_add_or_update)
  moreover have "?c' = (if of_int k \<in> productId ` set ?c
                 then map (\<lambda>i. if productId i = of_int k then i\<lparr>qty := qty i + of_int n\<rparr> else i) ?c
                 else ?c @ [\<lparr>productId = of_int k, qty = of_int n\<rparr>])"
    using assms(4) by (simp add: add_or_update_present add_or_update_absent)
  moreover have "safe_quantities ?c'"
    using assms(1,2,3,5) by (rule add_or_update_safe)
  ultimately show ?thesis by simp
qed

theorem add_valid_succeeds_witness:
  "\<exists>c' sess' d'.
     add_route ''17'' (JNum 2) (JNum 3)
       (\<lparr>cart = Some [\<lparr>productId = 1, qty = 12\<rparr>, \<lparr>productId = 2, qty = 4\<rparr>], userId = Some ''u1''\<rparr>,
        \<lparr>content = Missing, writable = True\<rparr>) = (Ok c', sess', d')
   \<and> cart sess' = Some c'
   \<and> c' = [\<lparr>productId = 1, qty = 12\<rparr>, \<lparr>productId = 2, qty = 7\<rparr>]
   \<and> safe_quantities c'"
proof -
  let ?s = "\<lparr>cart = Some [\<lparr>productId = 1, qty = 12\<rparr>, \<lparr>productId = 2, qty = 4\<rparr>], userId = Some ''u1''\<rparr>"
  have l: "lookup (of_int 2) = Some (hd (tl products))"
    by (simp add: lookup_def products_def)
  have s: "stock (hd (tl products)) = 24"
    by (simp add: products_def)
  have c: "cart_or_empty ?s = [\<lparr>productId = 1, qty = 12\<rparr>, \<lparr>productId = 2, qty = 4\<rparr>]"
    by (simp add: cart_or_empty_def)
  have q: "currentQty (cart_or_empty ?s) 2 = 4"
    by (simp add: c currentQty_def)
  have h2: "(0::int) < 3"
    by simp
  have h3: "currentQty (cart_or_empty ?s) (of_int 2) + of_int 3 \<le> stock (hd (tl products))"
    by (simp add: q s)
  have h4: "distinct (map productId (cart_or_empty ?s))"
    by (simp add: c)
  have h5: "safe_quantities (cart_or_empty ?s)"
    by (simp add: c safe_quantities_def isSafeInteger_def isInteger_def)
  show ?thesis
    using add_valid_succeeds [OF l h2 h3 h4 h5, of "''17''" "\<lparr>content = Missing, writable = True\<rparr>"]
    by (auto simp: c)
qed




section \<open>Claims about \<open>total\<close>\<close>

text \<open>
  C6. For every cart with positive safe integer quantities whose two sums stay in the
  safe range, and once its request for the product list has resolved, \<open>total\<close> answers
  with the sum of catalog price times quantity over the items, an unknown product id
  counting 0, and with the sum of the quantities; the session is returned as it was.
  Every partial sum of the two loops is a safe integer, so that no sum was rounded. An
  empty cart, absent or \<open>[]\<close>, gives 0 and 0, and two of product 1 with one of product
  2 give 549997.
\<close>

theorem total_route_sums:
  assumes "safe_quantities (cart_or_empty sess)"
    and "sum_list (map qty (cart_or_empty sess)) \<le> 9007199254740991"
    and "sum_list (map (\<lambda>item. catalog_price (productId item) * qty item) (cart_or_empty sess))
           \<le> 9007199254740991"
  shows "total_route True sess =
     Some (\<lparr>total' = sum_list (map (\<lambda>item. catalog_price (productId item) * qty item)
                              (cart_or_empty sess)),
            itemCount = sum_list (map qty (cart_or_empty sess)),
            currency = ''COP''\<rparr>, sess)
   \<and> (\<forall>j\<le>length (cart_or_empty sess).
         isSafeInteger (sum_list (map qty (take j (cart_or_empty sess))))
       \<and> isSafeInteger (sum_list (map (\<lambda>item. catalog_price (productId item) * qty item)
                                    (take j (cart_or_empty sess)))))
   \<and> total_route True \<lparr>cart = None, userId = u\<rparr> =
       Some (\<lparr>total' = 0, itemCount = 0, currency = ''COP''\<rparr>, \<lparr>cart = None, userId = u\<rparr>)
   \<and> total_route True \<lparr>cart = Some [], userId = u\<rparr> =
       Some (\<lparr>total' = 0, itemCount = 0, currency = ''COP''\<rparr>, \<lparr>cart = Some [], userId = u\<rparr>)
   \<and> map_option (total' \<circ> fst)
        (total_route True \<lparr>cart = Some [\<lparr>productId = 1, qty = 2\<rparr>, \<lparr>productId = 2, qty = 1\<rparr>],
                           userId = u\<rparr>) = Some 549997
   \<and> catalog_price 999 = 0"
proof -
  have "fold (\<lambda>item t. t + price_or_zero (productId item) * qty item) c 0 =
        sum_list (map (\<lambda>item. catalog_price (productId item) * qty item) c)"
    for c :: "CartItem list"
    by (simp add: fold_plus_sum_list price_or_zero_catalog)
  moreover have "fold (\<lambda>i acc. acc + qty i) c 0 = sum_list (map qty c)" for c :: "CartItem list"
    by (simp add: fold_plus_sum_list)
  ultimately have general: "total_route True s =
     Some (\<lparr>total' = sum_list (map (\<lambda>item. catalog_price (productId item) * qty item)
                              (cart_or_empty s)),
            itemCount = sum_list (map qty (cart_or_empty s)),
            currency = ''COP''\<rparr>, s)" for s
    by (simp add: total_route_def Let_def)
  have q: "qty i \<in> \<int> \<and> 0 \<le> qty i" if "i \<in> set (cart_or_empty sess)" for i
    using assms(1) that
    by (auto simp: safe_quantities_def isSafeInteger_def isInteger_Ints list_all_iff)
  have "isSafeInteger (sum_list (map qty (take j (cart_or_empty sess))))" for j
    using q assms(2) by (rule partial_sums_safe)
  moreover have "isSafeInteger (sum_list (map (\<lambda>item. catalog_price (productId item) * qty item)
                                    (take j (cart_or_empty sess))))" for j
  proof (rule partial_sums_safe)
    show "catalog_price (productId i) * qty i \<in> \<int> \<and> 0 \<le> catalog_price (productId i) * qty i"
      if "i \<in> set (cart_or_empty sess)" for i
      using q[OF that] catalog_price_Ints[of "productId i"] by simp
  qed (rule assms(3))
  ultimately have safe: "\<forall>j\<le>length (cart_or_empty sess).
         isSafeInteger (sum_list (map qty (take j (cart_or_empty sess))))
       \<and> isSafeInteger (sum_list (map (\<lambda>item. catalog_price (productId item) * qty item)
                                    (take j (cart_or_empty sess))))"
    by simp
  have "catalog_price 1 = 199999" "catalog_price 2 = 149999" "catalog_price 999 = 0"
    by (simp_all add: catalog_price_def lookup_def products_def)
  then show ?thesis
    using safe by (simp add: general cart_or_empty_def)
qed

theorem total_route_sums_witness:
  "total_route True \<lparr>cart = Some [\<lparr>productId = 7, qty = 3\<rparr>, \<lparr>productId = 999, qty = 5\<rparr>],
                     userId = Some ''u1''\<rparr> =
     Some (\<lparr>total' = 689997, itemCount = 8, currency = ''COP''\<rparr>,
           \<lparr>cart = Some [\<lparr>productId = 7, qty = 3\<rparr>, \<lparr>productId = 999, qty = 5\<rparr>],
            userId = Some ''u1''\<rparr>)"
proof -
  let ?s = "\<lparr>cart = Some [\<lparr>productId = 7, qty = 3\<rparr>, \<lparr>productId = 999, qty = 5\<rparr>],
            userId = Some ''u1''\<rparr>"
  have p: "catalog_price 7 = 229999" "catalog_price 999 = 0"
    by (simp_all add: catalog_price_def lookup_def products_def)
  have c: "cart_or_empty ?s = [\<lparr>productId = 7, qty = 3\<rparr>, \<lparr>productId = 999, qty = 5\<rparr>]"
    by (simp add: cart_or_empty_def)
  have h1: "safe_quantities (cart_or_empty ?s)"
    by (simp add: c safe_quantities_def isSafeInteger_def isInteger_def)
  have h2: "sum_list (map qty (cart_or_empty ?s)) \<le> 9007199254740991"
    by (simp add: c)
  have h3: "sum_list (map (\<lambda>item. catalog_price (productId item) * qty item) (cart_or_empty ?s))
           \<le> 9007199254740991"
    by (simp add: c p)
  show ?thesis
    using total_route_sums [OF h1 h2 h3]
    by (simp add: c p)
qed

section \<open>Claims about the validation of \<open>add\<close>\<close>

text \<open>
  C3, as the handler has it. The first rule of \<open>add\<close> rejects, with one of the two
  messages of \<open>MissingOrWrongType\<close> and with the session and the file untouched, every
  body whose \<open>productId\<close> is absent, \<open>null\<close>, 0 or falsy in another way, or is not a
  number, or whose \<open>qty\<close> is absent, \<open>null\<close> or not a number. A body with a non-zero
  integer \<open>productId\<close> and an integer \<open>qty\<close> passes the rule: a later rule decides.
\<close>

theorem add_rule1:
  fixes k n :: int
  shows "(\<not> truthy pv \<or> nullish qv \<or> num_of pv = None \<or> num_of qv = None \<longrightarrow>
            rule1_rejects (fst (add_route ts pv qv st)) \<and> snd (add_route ts pv qv st) = st)
       \<and> (k \<noteq> 0 \<longrightarrow>
            \<not> rule1_rejects (fst (add_route ts (JNum (of_int k)) (JNum (of_int n)) st)))"
proof (intro conjI impI)
  assume bad: "\<not> truthy pv \<or> nullish qv \<or> num_of pv = None \<or> num_of qv = None"
  then show "rule1_rejects (fst (add_route ts pv qv st))"
    by (auto simp: add_route_def rule1_rejects_def MissingOrWrongType_def Let_def
        split: option.splits)
  from bad show "snd (add_route ts pv qv st) = st"
    by (auto simp: add_route_def Let_def split: option.splits)
next
  assume "k \<noteq> 0"
  then show "\<not> rule1_rejects (fst (add_route ts (JNum (of_int k)) (JNum (of_int n)) st))"
    by (simp add: add_route_def rule1_rejects_def MissingOrWrongType_def Let_def)
qed

theorem add_rule1_witness:
  "rule1_rejects (fst (add_route ''17'' (JStr ''1'') (JNum 1)
      (\<lparr>cart = None, userId = Some ''u1''\<rparr>, \<lparr>content = Missing, writable = True\<rparr>)))
   \<and> snd (add_route ''17'' (JStr ''1'') (JNum 1)
      (\<lparr>cart = None, userId = Some ''u1''\<rparr>, \<lparr>content = Missing, writable = True\<rparr>)) =
     (\<lparr>cart = None, userId = Some ''u1''\<rparr>, \<lparr>content = Missing, writable = True\<rparr>)
   \<and> \<not> rule1_rejects (fst (add_route ''17'' (JNum (of_int (- 3))) (JNum (of_int 0))
      (\<lparr>cart = None, userId = Some ''u1''\<rparr>, \<lparr>content = Missing, writable = True\<rparr>)))"
  using add_rule1 [of "JStr ''1''" "JNum 1" "''17''"
      "(\<lparr>cart = None, userId = Some ''u1''\<rparr>, \<lparr>content = Missing, writable = True\<rparr>)" "- 3" 0]
  by simp

text \<open>
  C3 as stated fails at the present integers \<open>productId = 0\<close>, \<open>qty = 1\<close>: the test
  \<open>!productId\<close> takes 0 for a missing field.
\<close>

theorem add_rule1_counterexample:
  "present_integer (JNum (of_int 0)) \<and> present_integer (JNum (of_int 1))
   \<and> rule1_rejects (fst (add_route ''17'' (JNum (of_int 0)) (JNum (of_int 1))
     (\<lparr>cart = None, userId = Some ''u1''\<rparr>, \<lparr>content = Missing, writable = True\<rparr>)))"
  by (simp add: add_route_def rule1_rejects_def MissingOrWrongType_def present_integer_def
      isInteger_def)

text \<open>
  The handler tests \<open>typeof\<close> only and never \<open>Number.isInteger\<close>, unlike
  \<open>validateCartData\<close> of the security middleware: a fraction goes through all five
  validations.
\<close>

lemma add_accepts_fraction:
  "fst (add_route ''17'' (JNum (3 / 2)) (JNum 1)
     (\<lparr>cart = None, userId = Some ''u1''\<rparr>, \<lparr>content = Missing, writable = True\<rparr>)) =
   Ok [\<lparr>productId = 3 / 2, qty = 1\<rparr>]"
  by (simp add: add_route_def cart_or_empty_def stockMap_def exceeds_def add_or_update_def
      currentQty_def Let_def)

lemma add_accepts_fractional_qty:
  "fst (add_route ''17'' (JNum 1) (JNum (5 / 2))
     (\<lparr>cart = None, userId = Some ''u1''\<rparr>, \<lparr>content = Missing, writable = True\<rparr>)) =
   Ok [\<lparr>productId = 1, qty = 5 / 2\<rparr>]"
  by (simp add: add_route_def cart_or_empty_def stockMap_def exceeds_def add_or_update_def
      currentQty_def Let_def)

text \<open>
  C4, as the handler has it. Whenever \<open>add\<close> answers "Stock insuficiente", the
  quantity after "Disponible:" is the stock of the catalog product with the requested
  id, whatever the cart already holds.
\<close>

theorem add_reports_full_stock:
  assumes "fst (add_route ts pv qv (sess, d)) = Rejected (InsufficientStock a)"
  shows "\<exists>p x. pv = JNum p \<and> lookup p = Some x \<and> a = Some (stock x)"
proof -
  from assms obtain p q where pv: "pv = JNum p" and qv: "qv = JNum q"
    by (cases pv; cases qv) (auto simp: add_route_def Let_def split: if_splits)
  with assms have ex: "exceeds (currentQty (cart_or_empty sess) p + q) (stockMap p)"
    and a: "a = stockMap p"
    by (auto simp: add_route_def Let_def split: if_splits)
  from ex obtain s where s: "stockMap p = Some s"
    by (auto simp: exceeds_def split: option.splits)
  then obtain x where "lookup p = Some x" and "stock x = s"
    by (auto simp: stockMap_def lookup_def products_def split: if_splits)
  with pv a s show ?thesis by simp
qed

theorem add_reports_full_stock_witness:
  "\<exists>p x. JNum 1 = JNum p \<and> lookup p = Some x \<and> Some 12 = Some (stock x)"
proof -
  have "fst (add_route ''17'' (JNum 1) (JNum 1)
     (\<lparr>cart = Some [\<lparr>productId = 1, qty = 12\<rparr>], userId = Some ''u1''\<rparr>,
      \<lparr>content = Missing, writable = True\<rparr>)) = Rejected (InsufficientStock (Some 12))"
    by (simp add: add_route_def cart_or_empty_def stockMap_def exceeds_def currentQty_def Let_def)
  then show ?thesis
    by (rule add_reports_full_stock)
qed

text \<open>
  C4 as stated fails with twelve of product 1 in the cart and one more requested: the
  message reports 12, the product's stock, and not \<open>12 - 12\<close>.
\<close>

theorem add_available_counterexample:
  "lookup 1 = Some (hd products)
   \<and> fst (add_route ''17'' (JNum 1) (JNum 1)
       (\<lparr>cart = Some [\<lparr>productId = 1, qty = 12\<rparr>], userId = Some ''u1''\<rparr>,
        \<lparr>content = Missing, writable = True\<rparr>)) =
     Rejected (InsufficientStock (Some (stock (hd products))))
   \<and> fst (add_route ''17'' (JNum 1) (JNum 1)
       (\<lparr>cart = Some [\<lparr>productId = 1, qty = 12\<rparr>], userId = Some ''u1''\<rparr>,
        \<lparr>content = Missing, writable = True\<rparr>)) \<noteq>
     Rejected (InsufficientStock
       (Some (stock (hd products) - currentQty [\<lparr>productId = 1, qty = 12\<rparr>] 1)))"
  by (simp add: add_route_def cart_or_empty_def stockMap_def exceeds_def currentQty_def Let_def
      lookup_def products_def)

section \<open>Claims about the cart as a state machine\<close>

lemma cart_after_add:
  "cart_or_empty (fst (snd (add_route ts pv qv st))) = cart_or_empty (fst st) \<or>
   (\<exists>p q. cart_or_empty (fst (snd (add_route ts pv qv st))) =
            add_or_update (cart_or_empty (fst st)) p q)"
  by (auto simp: add_route_def Let_def cart_or_empty_def split: option.splits)

lemma cart_after_remove:
  "cart_or_empty (fst (snd (remove_route pv st))) = cart_or_empty (fst st) \<or>
   (\<exists>p. cart_or_empty (fst (snd (remove_route pv st))) =
          filter (\<lambda>i. productId i \<noteq> p) (cart_or_empty (fst st)))"
  by (auto simp: remove_route_def Let_def cart_or_empty_def split: option.splits)

lemma cart_after_clear: "cart_or_empty (fst (snd (clear_route st))) = []"
  by (simp add: clear_route_def Let_def cart_or_empty_def)

lemma step_keeps_unique:
  assumes "distinct (map productId (cart_or_empty (fst st)))"
  shows "distinct (map productId (cart_or_empty (fst (step r st))))"
proof (cases r)
  case (Add ts pv qv)
  with assms cart_after_add[of ts pv qv st] show ?thesis
    by (auto simp: distinct_add_or_update)
next
  case (Remove pv)
  with assms cart_after_remove[of pv st] show ?thesis
    by (auto simp: distinct_map_filter)
next
  case Clear
  then show ?thesis by (simp add: cart_after_clear)
qed

lemma run_keeps_unique:
  "distinct (map productId (cart_or_empty (fst st))) \<Longrightarrow>
   distinct (map productId (cart_or_empty (fst (run rs st))))"
  unfolding run_def
  by (induction rs arbitrary: st) (simp_all add: step_keeps_unique)

text \<open>
  C5. Starting from a session whose cart is empty (absent or \<open>[]\<close>), after any
  sequence of \<open>add\<close>, \<open>remove\<close> and \<open>clear\<close> requests, with any bodies, the cart of the
  session has at most one item for each product id.
\<close>

theorem reachable_cart_unique:
  assumes "cart_or_empty sess = []"
  shows "distinct (map productId (cart_or_empty (fst (run rs (sess, d)))))"
  using assms by (intro run_keeps_unique) simp

theorem reachable_cart_unique_witness:
  "cart_or_empty (fst (run [Add ''17'' (JNum 1) (JNum 2), Add ''18'' (JNum 2) (JNum 1),
                            Add ''19'' (JNum 1) (JNum 3), Remove (JNum 2), Add ''20'' (JNum 2) (JNum 4)]
       (\<lparr>cart = None, userId = None\<rparr>, \<lparr>content = Missing, writable = True\<rparr>))) =
     [\<lparr>productId = 1, qty = 5\<rparr>, \<lparr>productId = 2, qty = 4\<rparr>]
   \<and> distinct (map productId (cart_or_empty (fst (run
        [Add ''17'' (JNum 1) (JNum 2), Add ''18'' (JNum 2) (JNum 1),
         Add ''19'' (JNum 1) (JNum 3), Remove (JNum 2), Add ''20'' (JNum 2) (JNum 4)]
       (\<lparr>cart = None, userId = None\<rparr>, \<lparr>content = Missing, writable = True\<rparr>)))))"
proof -
  have e: "cart_or_empty \<lparr>cart = None, userId = None\<rparr> = []"
    by (simp add: cart_or_empty_def)
  have "cart_or_empty (fst (run [Add ''17'' (JNum 1) (JNum 2), Add ''18'' (JNum 2) (JNum 1),
                            Add ''19'' (JNum 1) (JNum 3), Remove (JNum 2), Add ''20'' (JNum 2) (JNum 4)]
       (\<lparr>cart = None, userId = None\<rparr>, \<lparr>content = Missing, writable = True\<rparr>))) =
     [\<lparr>productId = 1, qty = 5\<rparr>, \<lparr>productId = 2, qty = 4\<rparr>]"
    by (simp add: run_def add_route_def remove_route_def cart_or_empty_def stockMap_def
        exceeds_def add_or_update_def currentQty_def Let_def)
  then show ?thesis
    using reachable_cart_unique [OF e] by simp
qed

text \<open>
  C7, as the handler has it. For every non-zero integer \<open>productId\<close>, negative ones
  too, \<open>remove\<close> answers with the cart without the items of that product and stores
  it in the session; when no item has that id the answer is the cart as it was. A
  rejection is one of the two messages of \<open>MissingOrWrongType\<close>, leaves session and
  file untouched, and happens only when \<open>productId\<close> is 0 or is not a present
  integer.
\<close>

theorem remove_nonzero_integer:
  fixes k :: int
  shows "(k \<noteq> 0 \<longrightarrow>
           fst (remove_route (JNum (of_int k)) (sess, d)) =
             Ok (filter (\<lambda>i. productId i \<noteq> of_int k) (cart_or_empty sess))
         \<and> cart (fst (snd (remove_route (JNum (of_int k)) (sess, d)))) =
             Some (filter (\<lambda>i. productId i \<noteq> of_int k) (cart_or_empty sess))
         \<and> (of_int k \<notin> productId ` set (cart_or_empty sess) \<longrightarrow>
              fst (remove_route (JNum (of_int k)) (sess, d)) = Ok (cart_or_empty sess)))
       \<and> (fst (remove_route pv (sess, d)) = Rejected e \<longrightarrow>
            MissingOrWrongType e \<and> (pv = JNum 0 \<or> \<not> present_integer pv)
          \<and> snd (remove_route pv (sess, d)) = (sess, d))"
proof (intro conjI impI)
  assume k: "k \<noteq> 0"
  then show "fst (remove_route (JNum (of_int k)) (sess, d)) =
             Ok (filter (\<lambda>i. productId i \<noteq> of_int k) (cart_or_empty sess))"
    by (simp add: remove_route_def Let_def)
  from k show "cart (fst (snd (remove_route (JNum (of_int k)) (sess, d)))) =
             Some (filter (\<lambda>i. productId i \<noteq> of_int k) (cart_or_empty sess))"
    by (simp add: remove_route_def Let_def)
  assume "of_int k \<notin> productId ` set (cart_or_empty sess)"
  then have "filter (\<lambda>i. productId i \<noteq> of_int k) (cart_or_empty sess) = cart_or_empty sess"
    by (intro filter_True) force
  with k show "fst (remove_route (JNum (of_int k)) (sess, d)) = Ok (cart_or_empty sess)"
    by (simp add: remove_route_def Let_def)
next
  assume r: "fst (remove_route pv (sess, d)) = Rejected e"
  then show "MissingOrWrongType e"
    by (auto simp: remove_route_def Let_def MissingOrWrongType_def split: if_splits option.splits)
  from r show "pv = JNum 0 \<or> \<not> present_integer pv"
    by (cases pv) (auto simp: remove_route_def Let_def present_integer_def
        split: if_splits option.splits)
  from r show "snd (remove_route pv (sess, d)) = (sess, d)"
    by (auto simp: remove_route_def Let_def split: if_splits option.splits)
qed

theorem remove_nonzero_integer_witness:
  "fst (remove_route (JNum (of_int (- 4)))
     (\<lparr>cart = Some [\<lparr>productId = 1, qty = 2\<rparr>], userId = Some ''u1''\<rparr>,
      \<lparr>content = Missing, writable = True\<rparr>)) = Ok [\<lparr>productId = 1, qty = 2\<rparr>]
   \<and> MissingOrWrongType Required \<and> \<not> present_integer JNull"
proof -
  let ?s = "\<lparr>cart = Some [\<lparr>productId = 1, qty = 2\<rparr>], userId = Some ''u1''\<rparr>"
  let ?d = "\<lparr>content = Missing, writable = True\<rparr>"
  have c: "cart_or_empty ?s = [\<lparr>productId = 1, qty = 2\<rparr>]"
    by (simp add: cart_or_empty_def)
  have r: "fst (remove_route JNull (?s, ?d)) = Rejected Required"
    by (simp add: remove_route_def)
  show ?thesis
    using remove_nonzero_integer [of "- 4" ?s ?d JNull Required] r
    by (simp add: c)
qed

text \<open>
  C7 as stated fails at the present integer \<open>productId = 0\<close>, which \<open>!productId\<close>
  rejects as missing.
\<close>

theorem remove_zero_counterexample:
  "present_integer (JNum (of_int 0))
   \<and> fst (remove_route (JNum (of_int 0))
     (\<lparr>cart = Some [\<lparr>productId = 1, qty = 2\<rparr>], userId = Some ''u1''\<rparr>,
      \<lparr>content = Missing, writable = True\<rparr>)) = Rejected Required"
  by (simp add: remove_route_def present_integer_def isInteger_def)

section \<open>Claims about the persisted store\<close>

lemma id_or_nonempty: "d \<noteq> [] \<Longrightarrow> id_or u d \<noteq> []"
  by (simp add: id_or_def split: option.splits)

lemma id_or_Some: "u \<noteq> [] \<Longrightarrow> id_or (Some u) d = u"
  by (simp add: id_or_def)

lemma load_save_same:
  "content d \<noteq> Corrupt \<Longrightarrow> writable d \<Longrightarrow> loadCartFromFile u (saveCartToFile u c d) = c"
  by (simp add: saveCartToFile_def loadCartFromFile_def split: file_state.splits)

lemma add_route_Ok:
  assumes "add_route ts pv qv (sess, d) = (Ok c', sess', d')"
  shows "cart sess' = Some c'"
    and "userId sess' = Some (id_or (userId sess) (''user_'' @ ts))"
    and "d' = saveCartToFile (id_or (userId sess) (''user_'' @ ts)) c' d"
  using assms
  by (auto simp: add_route_def Let_def split: if_splits option.splits)

text \<open>
  C8. When the file is missing or holds a mapping, and the write succeeds: loading a
  user's cart after saving it gives the saved cart, and a new session with that user
  id gets it from \<open>GET /api/cart\<close>. After a successful \<open>add\<close>, \<open>GET /api/cart\<close>
  answers with the cart that \<open>add\<close> returned, in the same session and in a new session
  with the same user id.
\<close>

theorem save_load_round_trip:
  assumes "content d \<noteq> Corrupt" and "writable d"
  shows "loadCartFromFile u (saveCartToFile u c d) = c
       \<and> (u \<noteq> [] \<longrightarrow>
            fst (get_route (\<lparr>cart = None, userId = Some u\<rparr>, saveCartToFile u c d)) = c)
       \<and> (add_route ts pv qv (sess, d) = (Ok c', sess', d') \<longrightarrow>
            fst (get_route (sess', d')) = c'
          \<and> fst (get_route (\<lparr>cart = None, userId = userId sess'\<rparr>, d')) = c')"
proof (intro conjI impI)
  show rt: "loadCartFromFile u (saveCartToFile u c d) = c" for u c
    using assms by (rule load_save_same)
  show "fst (get_route (\<lparr>cart = None, userId = Some u\<rparr>, saveCartToFile u c d)) = c"
    if "u \<noteq> []"
    using that rt by (simp add: get_route_def Let_def cart_or_empty_def id_or_Some)
  assume a: "add_route ts pv qv (sess, d) = (Ok c', sess', d')"
  let ?uid = "id_or (userId sess) (''user_'' @ ts)"
  from add_route_Ok[OF a] have c: "cart sess' = Some c'" and u: "userId sess' = Some ?uid"
    and d': "d' = saveCartToFile ?uid c' d"
    by simp_all
  from c show "fst (get_route (sess', d')) = c'"
    by (simp add: get_route_def Let_def cart_or_empty_def)
  have "?uid \<noteq> []"
    by (rule id_or_nonempty) simp
  then show "fst (get_route (\<lparr>cart = None, userId = userId sess'\<rparr>, d')) = c'"
    using rt[of ?uid c'] by (simp add: u d' get_route_def Let_def cart_or_empty_def id_or_Some)
qed

theorem save_load_round_trip_witness:
  "loadCartFromFile ''u1'' (saveCartToFile ''u1'' [\<lparr>productId = 1, qty = 2\<rparr>]
      \<lparr>content = Carts [''u2'' \<mapsto> [\<lparr>productId = 3, qty = 1\<rparr>]], writable = True\<rparr>) =
     [\<lparr>productId = 1, qty = 2\<rparr>]
   \<and> fst (get_route (\<lparr>cart = None, userId = Some ''u1''\<rparr>,
        saveCartToFile ''u1'' [\<lparr>productId = 1, qty = 2\<rparr>]
          \<lparr>content = Carts [''u2'' \<mapsto> [\<lparr>productId = 3, qty = 1\<rparr>]], writable = True\<rparr>)) =
     [\<lparr>productId = 1, qty = 2\<rparr>]
   \<and> fst (get_route (snd (add_route ''17'' (JNum 1) (JNum 2)
        (\<lparr>cart = None, userId = Some ''u1''\<rparr>,
         \<lparr>content = Carts [''u2'' \<mapsto> [\<lparr>productId = 3, qty = 1\<rparr>]], writable = True\<rparr>)))) =
     [\<lparr>productId = 1, qty = 2\<rparr>]"
proof -
  let ?d = "\<lparr>content = Carts [''u2'' \<mapsto> [\<lparr>productId = 3, qty = 1\<rparr>]], writable = True\<rparr>"
  let ?s = "\<lparr>cart = None, userId = Some ''u1''\<rparr>"
  let ?c = "[\<lparr>productId = 1, qty = 2\<rparr>]"
  have h1: "content ?d \<noteq> Corrupt" by simp
  have h2: "writable ?d" by simp
  have a: "add_route ''17'' (JNum 1) (JNum 2) (?s, ?d) =
             (Ok ?c, \<lparr>cart = Some ?c, userId = Some ''u1''\<rparr>, saveCartToFile ''u1'' ?c ?d)"
    by (simp add: add_route_def cart_or_empty_def stockMap_def exceeds_def add_or_update_def
        currentQty_def id_or_def Let_def)
  show ?thesis
    using save_load_round_trip [OF h1 h2, of "''u1''" ?c "''17''" "JNum 1" "JNum 2" ?s ?c
        "\<lparr>cart = Some ?c, userId = Some ''u1''\<rparr>" "saveCartToFile ''u1'' ?c ?d"] a
    by simp
qed

text \<open>
  Without those conditions the save is lost: \<open>saveCartToFile\<close> swallows the failure.
\<close>

lemma corrupt_file_loses_cart:
  "loadCartFromFile ''u1'' (saveCartToFile ''u1'' [\<lparr>productId = 1, qty = 2\<rparr>]
      \<lparr>content = Corrupt, writable = True\<rparr>) = []"
  by (simp add: saveCartToFile_def loadCartFromFile_def)

text \<open>
  C10. Saving one user's cart leaves the entry of every other user id as it was, in
  every state of the file, and so what \<open>loadCartFromFile\<close> returns for them.
\<close>

theorem save_keeps_other_entries:
  assumes "u' \<noteq> u"
  shows "entry (saveCartToFile u c d) u' = entry d u'
       \<and> loadCartFromFile u' (saveCartToFile u c d) = loadCartFromFile u' d"
  using assms
  by (auto simp: entry_def saveCartToFile_def loadCartFromFile_def split: file_state.splits)

theorem save_keeps_other_entries_witness:
  "entry (saveCartToFile ''u1'' [\<lparr>productId = 1, qty = 2\<rparr>]
            \<lparr>content = Carts [''u2'' \<mapsto> [\<lparr>productId = 3, qty = 1\<rparr>]], writable = True\<rparr>) ''u2''
     = Some [\<lparr>productId = 3, qty = 1\<rparr>]
   \<and> entry (saveCartToFile ''u1'' [\<lparr>productId = 1, qty = 2\<rparr>]
            \<lparr>content = Carts [''u2'' \<mapsto> [\<lparr>productId = 3, qty = 1\<rparr>]], writable = True\<rparr>) ''u1''
     = Some [\<lparr>productId = 1, qty = 2\<rparr>]"
proof -
  have ne: "''u2'' \<noteq> ''u1''" by simp
  have "entry (saveCartToFile ''u1'' [\<lparr>productId = 1, qty = 2\<rparr>]
            \<lparr>content = Carts [''u2'' \<mapsto> [\<lparr>productId = 3, qty = 1\<rparr>]], writable = True\<rparr>) ''u1''
     = Some [\<lparr>productId = 1, qty = 2\<rparr>]"
    by (simp add: entry_def saveCartToFile_def)
  then show ?thesis
    using save_keeps_other_entries [OF ne, of "[\<lparr>productId = 1, qty = 2\<rparr>]"
        "\<lparr>content = Carts [''u2'' \<mapsto> [\<lparr>productId = 3, qty = 1\<rparr>]], writable = True\<rparr>"]
    by (simp add: entry_def)
qed

section \<open>Claims about the catalog\<close>

lemma includes_sublist: "includes' s t \<longleftrightarrow> sublist t s"
  by (induction s) (simp_all add: sublist_Cons_right)

lemma sublist_map_iff:
  "sublist (map f t) (map f s) \<longleftrightarrow> (\<exists>w. sublist w s \<and> map f w = map f t)"
proof
  assume "sublist (map f t) (map f s)"
  then obtain ps ss where "map f s = ps @ map f t @ ss"
    by (auto simp: sublist_def)
  then obtain us vs ws where "s = us @ vs @ ws" and "map f vs = map f t"
    by (auto simp: map_eq_append_conv append_eq_map_conv)
  then show "\<exists>w. sublist w s \<and> map f w = map f t"
    by auto
next
  assume "\<exists>w. sublist w s \<and> map f w = map f t"
  then obtain w where "sublist w s" and "map f w = map f t"
    by blast
  then show "sublist (map f t) (map f s)"
    using map_mono_sublist[of w s f] by simp
qed

lemma includes_lower_ci:
  "includes' (toLowerCase s) (toLowerCase t) \<longleftrightarrow> ci_substring t s"
  by (auto simp: includes_sublist toLowerCase_def sublist_map_iff ci_substring_def ci_equal_def
      list_ex_iff)

text \<open>
  C9. \<open>search\<close> returns, in catalog order, exactly the products whose name or
  description contains the term as a case-insensitive substring. The empty term
  matches every product, \<open>"runner"\<close> finds the product named "Runner Azul" and no
  other, and \<open>"RUNNER"\<close> finds the same.
\<close>

theorem search_case_insensitive:
  "search q = filter (\<lambda>p. ci_substring q (name p) \<or> ci_substring q (description p)) products
   \<and> search [] = products
   \<and> search ''runner'' = [hd products] \<and> name (hd products) = ''Runner Azul''
   \<and> search ''RUNNER'' = search ''runner''"
proof -
  have "search q = filter (\<lambda>p. ci_substring q (name p) \<or> ci_substring q (description p)) products"
    by (simp add: search_def Let_def includes_lower_ci)
  moreover have "search [] = products"
  proof -
    have "includes' s []" for s by (simp add: includes_sublist)
    then show ?thesis by (simp add: search_def toLowerCase_def)
  qed
  moreover have "search ''runner'' = [hd products]"
    by code_simp
  moreover have "name (hd products) = ''Runner Azul''"
    by (simp add: products_def)
  moreover have "search ''RUNNER'' = search ''runner''"
    by code_simp
  ultimately show ?thesis by simp
qed

theorem search_case_insensitive_witness:
  "map id' (search ''DISE'') = [7, 9]
   \<and> map id' (filter (\<lambda>p. ci_substring ''DISE'' (name p) \<or> ci_substring ''DISE'' (description p))
        products) = [7, 9]"
proof -
  have "map id' (search ''DISE'') = [7, 9]"
    by code_simp
  then show ?thesis
    using search_case_insensitive [of "''DISE''"] by simp
qed

end
